theory Spec2Isabelle
  imports Main "HOL-Library.Word"
begin

unbundle bit_operations_syntax

section \<open>Machine types\<close>

text \<open>
  \<open>uint8_t\<close> is an 8-bit word, \<open>int16_t\<close> a 16-bit word read through \<open>sint\<close>, and the
  enumeration arguments of the driver are C \<open>int\<close> values (32-bit words): the shifts and
  masks of the driver are computed at \<open>int\<close> width and narrowed to \<open>uint8_t\<close> on
  assignment, which is \<open>ucast\<close>.
\<close>

type_synonym uint8_t = "8 word"
type_synonym int16_t = "16 word"
type_synonym c_int = "32 word"

section \<open>The I2C bus (i2c.h, not part of the sources)\<close>

text \<open>
  The bus is a register file per slave address together with the list of the
  transactions issued so far, oldest first.
\<close>

datatype i2c_transaction =
    ReadRegister uint8_t uint8_t
  | WriteRegister uint8_t uint8_t uint8_t
  | ReadRegisters uint8_t uint8_t uint8_t
  | ModifyRegister uint8_t uint8_t uint8_t uint8_t

record i2c_bus =
  device :: "uint8_t \<Rightarrow> uint8_t \<Rightarrow> uint8_t"
  transactions :: "i2c_transaction list"

text \<open>
  Modelled from the spec: \<open>I2C_MOD_NO_AND_MASK\<close> and \<open>I2C_MOD_NO_OR_MASK\<close> of i2c.h are
  missing. They are the masks that make the AND half, respectively the OR half, of a
  modify an identity no-op.
\<close>

definition I2C_MOD_NO_AND_MASK :: uint8_t where
  "I2C_MOD_NO_AND_MASK = 0xFF"

definition I2C_MOD_NO_OR_MASK :: uint8_t where
  "I2C_MOD_NO_OR_MASK = 0x00"

text \<open>
  Modelled from the spec: \<open>I2C_ReadRegister\<close> of i2c.c is missing;
  \<open>readRegister(deviceAddr, regAddr) -> byte\<close>, an addressed single-register read.
\<close>

definition I2C_ReadRegister :: "uint8_t \<Rightarrow> uint8_t \<Rightarrow> i2c_bus \<Rightarrow> uint8_t \<times> i2c_bus" where
  "I2C_ReadRegister slaveId registerAddress bus =
     (device bus slaveId registerAddress,
      bus\<lparr>transactions := transactions bus @ [ReadRegister slaveId registerAddress]\<rparr>)"

text \<open>
  Modelled from the spec: \<open>I2C_WriteRegister\<close> of i2c.c is missing;
  \<open>writeRegister(deviceAddr, regAddr, byte)\<close>, an addressed single-register write.
\<close>

definition I2C_WriteRegister :: "uint8_t \<Rightarrow> uint8_t \<Rightarrow> uint8_t \<Rightarrow> i2c_bus \<Rightarrow> i2c_bus" where
  "I2C_WriteRegister slaveId registerAddress v bus =
     bus\<lparr>device := (device bus)(slaveId := (device bus slaveId)(registerAddress := v)),
         transactions := transactions bus @ [WriteRegister slaveId registerAddress v]\<rparr>"

text \<open>
  Modelled from the spec: \<open>I2C_ReadRegisters\<close> of i2c.c is missing;
  \<open>readBurst(deviceAddr, startRegAddr, count) -> bytes\<close>, one transaction transferring
  \<open>count\<close> consecutive register addresses.
\<close>

definition I2C_ReadRegisters ::
  "uint8_t \<Rightarrow> uint8_t \<Rightarrow> uint8_t \<Rightarrow> i2c_bus \<Rightarrow> uint8_t list \<times> i2c_bus" where
  "I2C_ReadRegisters slaveId startRegisterAddress registerCount bus =
     (map (\<lambda>i. device bus slaveId (startRegisterAddress + of_nat i)) [0 ..< unat registerCount],
      bus\<lparr>transactions := transactions bus
             @ [ReadRegisters slaveId startRegisterAddress registerCount]\<rparr>)"

text \<open>
  Modelled from the spec: \<open>I2C_ModifyRegister\<close> of i2c.c is missing;
  \<open>modifyRegister(deviceAddr, regAddr, clearMask, setMask)\<close>, the atomic read-mask-write:
  read the current value, AND it with the mask that clears the owned bits, OR in the new
  bits, write back, as one transaction.
\<close>

definition I2C_ModifyRegister ::
  "uint8_t \<Rightarrow> uint8_t \<Rightarrow> uint8_t \<Rightarrow> uint8_t \<Rightarrow> i2c_bus \<Rightarrow> i2c_bus" where
  "I2C_ModifyRegister slaveId registerAddress andMask orMask bus =
     bus\<lparr>device := (device bus)(slaveId := (device bus slaveId)
            (registerAddress := (device bus slaveId registerAddress AND andMask) OR orMask)),
         transactions := transactions bus
            @ [ModifyRegister slaveId registerAddress andMask orMask]\<rparr>"

section \<open>Byte order (endian.h, not part of the sources)\<close>

datatype endian_t = FROM_BIG_ENDIAN | FROM_LITTLE_ENDIAN

text \<open>
  Modelled from the spec: \<open>endianCorrectionRequired\<close> of endian.h is missing; it reports
  whether the host's native byte order differs from the declared wire convention. The
  host's native order is the first argument.
\<close>

definition endianCorrectionRequired :: "endian_t \<Rightarrow> endian_t \<Rightarrow> bool" where
  "endianCorrectionRequired host declared = (host \<noteq> declared)"

text \<open>
  Modelled from the spec: the macro \<open>ENDIANSWAP_16\<close> of endian.h is missing; the 16-bit
  byte swap.
\<close>

definition ENDIANSWAP_16 :: "int16_t \<Rightarrow> int16_t" where
  "ENDIANSWAP_16 v = push_bit 8 v OR drop_bit 8 v"

text \<open>
  The value the host reads from a 16-bit field whose two bytes are, in ascending memory
  order, \<open>b0\<close> and \<open>b1\<close>.
\<close>

definition load16 :: "endian_t \<Rightarrow> uint8_t \<Rightarrow> uint8_t \<Rightarrow> int16_t" where
  "load16 host b0 b1 =
     (case host of
        FROM_LITTLE_ENDIAN \<Rightarrow> push_bit 8 (ucast b1) OR ucast b0
      | FROM_BIG_ENDIAN \<Rightarrow> push_bit 8 (ucast b0) OR ucast b1)"

section \<open>The register map (mma8451q.h, not part of the sources)\<close>

text \<open>
  The bus address of the accelerometer and the addresses of the registers the driver
  names are constants of the missing header; they are a parameter of every operation.
\<close>

record mma8451q_h =
  MMA8451Q_I2CADDR :: uint8_t
  MMA8451Q_REG_STATUS :: uint8_t
  MMA8451Q_REG_SYSMOD :: uint8_t
  MMA8451Q_REG_XZY_DATA_CFG :: uint8_t
  MMA8451Q_REG_PL_CFG :: uint8_t
  MMA8451Q_REG_CTRL_REG1 :: uint8_t
  MMA8451Q_REG_CTRL_REG2 :: uint8_t
  MMA8451Q_REG_CTRL_REG3 :: uint8_t
  MMA8451Q_REG_CTRL_REG4 :: uint8_t
  MMA8451Q_REG_CTRL_REG5 :: uint8_t

text \<open>
  Modelled from the spec: the enumeration \<open>mma8451q_intpin_t\<close> of mma8451q.h is missing;
  an interrupt source is routed to one of two output pins.
\<close>

datatype mma8451q_intpin_t = MMA8451Q_INTPIN_INT1 | MMA8451Q_INTPIN_INT2

text \<open>
  Modelled from the spec: the structure \<open>mma8451q_acc_t\<close> of mma8451q.h is missing; one
  status byte followed by three signed 16-bit axis values (the padding byte in front of
  the status, which the driver skips, is left out).
\<close>

record mma8451q_acc_t =
  status :: uint8_t
  x :: int16_t
  y :: int16_t
  z :: int16_t

section \<open>mma8451q.c\<close>

definition CTRL_REG1_DR_MASK :: c_int where "CTRL_REG1_DR_MASK = 0x38"
definition CTRL_REG1_DR_SHIFT :: nat where "CTRL_REG1_DR_SHIFT = 0x3"
definition CTRL_REG1_LNOISE_MASK :: c_int where "CTRL_REG1_LNOISE_MASK = 0x4"
definition CTRL_REG1_LNOISE_SHIFT :: nat where "CTRL_REG1_LNOISE_SHIFT = 0x2"

definition CTRL_REG2_MODS_MASK :: c_int where "CTRL_REG2_MODS_MASK = 0x38"
definition CTRL_REG2_MODS_SHIFT :: nat where "CTRL_REG2_MODS_SHIFT = 0x3"

definition CTRL_REG3_IPOL_MASK :: c_int where "CTRL_REG3_IPOL_MASK = 0x2"
definition CTRL_REG3_IPOL_SHIFT :: nat where "CTRL_REG3_IPOL_SHIFT = 0x1"
definition CTRL_REG3_PPOD_MASK :: c_int where "CTRL_REG3_PPOD_MASK = 0x1"
definition CTRL_REG3_PPOD_SHIFT :: nat where "CTRL_REG3_PPOD_SHIFT = 0x0"

subsection \<open>MMA8451Q_ReadAcceleration14bitNoFifo\<close>

definition registerCount :: uint8_t where
  "registerCount = 7"

text \<open>
  The burst writes its bytes to the memory that starts at the status field: the first
  byte is the status, the next six are the memory of \<open>x\<close>, \<open>y\<close> and \<open>z\<close>.
\<close>

definition store_buffer :: "endian_t \<Rightarrow> uint8_t list \<Rightarrow> mma8451q_acc_t \<Rightarrow> mma8451q_acc_t" where
  "store_buffer host buffer data =
     data\<lparr>status := buffer ! 0,
          x := load16 host (buffer ! 1) (buffer ! 2),
          y := load16 host (buffer ! 3) (buffer ! 4),
          z := load16 host (buffer ! 5) (buffer ! 6)\<rparr>"

definition endian_fix :: "endian_t \<Rightarrow> mma8451q_acc_t \<Rightarrow> mma8451q_acc_t" where
  "endian_fix host data =
     (if endianCorrectionRequired host FROM_BIG_ENDIAN
      then data\<lparr>x := ENDIANSWAP_16 (x data),
                y := ENDIANSWAP_16 (y data),
                z := ENDIANSWAP_16 (z data)\<rparr>
      else data)"

definition layout_fix :: "mma8451q_acc_t \<Rightarrow> mma8451q_acc_t" where
  "layout_fix data =
     data\<lparr>x := signed_drop_bit 2 (x data),
          y := signed_drop_bit 2 (y data),
          z := signed_drop_bit 2 (z data)\<rparr>"

definition MMA8451Q_ReadAcceleration14bitNoFifo ::
  "mma8451q_h \<Rightarrow> endian_t \<Rightarrow> mma8451q_acc_t \<Rightarrow> i2c_bus \<Rightarrow> mma8451q_acc_t \<times> i2c_bus" where
  "MMA8451Q_ReadAcceleration14bitNoFifo h host data bus =
     (case I2C_ReadRegisters (MMA8451Q_I2CADDR h) (MMA8451Q_REG_STATUS h) registerCount bus of
        (buffer, bus') \<Rightarrow> (layout_fix (endian_fix host (store_buffer host buffer data)), bus'))"

subsection \<open>MMA8451Q_SetDataRate\<close>

definition SetDataRate_value :: "c_int \<Rightarrow> c_int \<Rightarrow> uint8_t" where
  "SetDataRate_value datarate lownoise =
     ucast ((push_bit CTRL_REG1_DR_SHIFT datarate AND CTRL_REG1_DR_MASK)
            OR (push_bit CTRL_REG1_LNOISE_SHIFT lownoise AND CTRL_REG1_LNOISE_MASK))"

definition SetDataRate_mask :: uint8_t where
  "SetDataRate_mask = ucast (NOT (CTRL_REG1_DR_MASK OR CTRL_REG1_LNOISE_MASK))"

definition MMA8451Q_SetDataRate :: "mma8451q_h \<Rightarrow> c_int \<Rightarrow> c_int \<Rightarrow> i2c_bus \<Rightarrow> i2c_bus" where
  "MMA8451Q_SetDataRate h datarate lownoise bus =
     I2C_ModifyRegister (MMA8451Q_I2CADDR h) (MMA8451Q_REG_CTRL_REG1 h)
       SetDataRate_mask (SetDataRate_value datarate lownoise) bus"

subsection \<open>MMA8451Q_SystemMode and MMA8451Q_LandscapePortraitConfig\<close>

definition MMA8451Q_SystemMode :: "mma8451q_h \<Rightarrow> i2c_bus \<Rightarrow> uint8_t \<times> i2c_bus" where
  "MMA8451Q_SystemMode h bus =
     I2C_ReadRegister (MMA8451Q_I2CADDR h) (MMA8451Q_REG_SYSMOD h) bus"

definition MMA8451Q_LandscapePortraitConfig :: "mma8451q_h \<Rightarrow> i2c_bus \<Rightarrow> uint8_t \<times> i2c_bus" where
  "MMA8451Q_LandscapePortraitConfig h bus =
     I2C_ReadRegister (MMA8451Q_I2CADDR h) (MMA8451Q_REG_PL_CFG h) bus"

subsection \<open>MMA8451Q_SetOversampling\<close>

definition SetOversampling_value :: "c_int \<Rightarrow> uint8_t" where
  "SetOversampling_value oversampling =
     ucast (push_bit CTRL_REG2_MODS_SHIFT oversampling AND CTRL_REG2_MODS_MASK)"

definition SetOversampling_mask :: uint8_t where
  "SetOversampling_mask = ucast (NOT CTRL_REG2_MODS_MASK)"

definition MMA8451Q_SetOversampling :: "mma8451q_h \<Rightarrow> c_int \<Rightarrow> i2c_bus \<Rightarrow> i2c_bus" where
  "MMA8451Q_SetOversampling h oversampling bus =
     I2C_ModifyRegister (MMA8451Q_I2CADDR h) (MMA8451Q_REG_CTRL_REG2 h)
       SetOversampling_mask (SetOversampling_value oversampling) bus"

subsection \<open>MMA8451Q_SetSensitivity\<close>

definition SetSensitivity_value :: "c_int \<Rightarrow> c_int \<Rightarrow> uint8_t" where
  "SetSensitivity_value sensitivity highpassEnabled =
     ucast ((sensitivity AND 0x03) OR (push_bit 4 highpassEnabled AND 0x10))"

definition MMA8451Q_SetSensitivity :: "mma8451q_h \<Rightarrow> c_int \<Rightarrow> c_int \<Rightarrow> i2c_bus \<Rightarrow> i2c_bus" where
  "MMA8451Q_SetSensitivity h sensitivity highpassEnabled bus =
     I2C_WriteRegister (MMA8451Q_I2CADDR h) (MMA8451Q_REG_XZY_DATA_CFG h)
       (SetSensitivity_value sensitivity highpassEnabled) bus"

subsection \<open>MMA8451Q_SetInterruptMode\<close>

definition SetInterruptMode_value :: "c_int \<Rightarrow> c_int \<Rightarrow> uint8_t" where
  "SetInterruptMode_value mode polarity =
     ucast ((push_bit CTRL_REG3_PPOD_SHIFT mode AND CTRL_REG3_PPOD_MASK)
            OR (push_bit CTRL_REG3_IPOL_SHIFT polarity AND CTRL_REG3_IPOL_MASK))"

definition SetInterruptMode_mask :: uint8_t where
  "SetInterruptMode_mask = ucast (NOT (CTRL_REG3_IPOL_MASK OR CTRL_REG3_PPOD_MASK))"

definition MMA8451Q_SetInterruptMode :: "mma8451q_h \<Rightarrow> c_int \<Rightarrow> c_int \<Rightarrow> i2c_bus \<Rightarrow> i2c_bus" where
  "MMA8451Q_SetInterruptMode h mode polarity bus =
     I2C_ModifyRegister (MMA8451Q_I2CADDR h) (MMA8451Q_REG_CTRL_REG3 h)
       SetInterruptMode_mask (SetInterruptMode_value mode polarity) bus"

subsection \<open>MMA8451Q_ConfigureInterrupt\<close>

text \<open>
  \<open>1 << irq\<close> is computed at \<open>int\<close> width; the shift count is the value of \<open>irq\<close>.
\<close>

definition ConfigureInterrupt_clearMask :: "c_int \<Rightarrow> mma8451q_intpin_t \<Rightarrow> uint8_t" where
  "ConfigureInterrupt_clearMask irq pin =
     (if MMA8451Q_INTPIN_INT2 = pin
      then ucast (NOT (push_bit (unat irq) (1 :: c_int)))
      else I2C_MOD_NO_AND_MASK)"

definition ConfigureInterrupt_setMask :: "c_int \<Rightarrow> mma8451q_intpin_t \<Rightarrow> uint8_t" where
  "ConfigureInterrupt_setMask irq pin =
     (if MMA8451Q_INTPIN_INT2 = pin
      then I2C_MOD_NO_OR_MASK
      else ucast (push_bit (unat irq) (1 :: c_int)))"

definition MMA8451Q_ConfigureInterrupt ::
  "mma8451q_h \<Rightarrow> c_int \<Rightarrow> mma8451q_intpin_t \<Rightarrow> i2c_bus \<Rightarrow> i2c_bus" where
  "MMA8451Q_ConfigureInterrupt h irq pin bus =
     I2C_ModifyRegister (MMA8451Q_I2CADDR h) (MMA8451Q_REG_CTRL_REG4 h)
       I2C_MOD_NO_AND_MASK (ucast (push_bit (unat irq) (1 :: c_int)))
       (I2C_ModifyRegister (MMA8451Q_I2CADDR h) (MMA8451Q_REG_CTRL_REG5 h)
          (ConfigureInterrupt_clearMask irq pin) (ConfigureInterrupt_setMask irq pin) bus)"

subsection \<open>MMA8451Q_ClearInterruptConfiguration\<close>

definition MMA8451Q_ClearInterruptConfiguration :: "mma8451q_h \<Rightarrow> i2c_bus \<Rightarrow> i2c_bus" where
  "MMA8451Q_ClearInterruptConfiguration h bus =
     I2C_WriteRegister (MMA8451Q_I2CADDR h) (MMA8451Q_REG_CTRL_REG5 h) 0
       (I2C_WriteRegister (MMA8451Q_I2CADDR h) (MMA8451Q_REG_CTRL_REG4 h) 0 bus)"

subsection \<open>MMA8451Q_FetchConfiguration and MMA8451Q_StoreConfiguration\<close>

text \<open>
  A pointer argument is \<open>None\<close> when null and otherwise carries the object it points to;
  a failed \<open>assert\<close> ends the program and is the error value. Both functions consist of
  the assertion alone: the aggregate and the bus come back as they went in.
\<close>

datatype error = AssertionFailed

definition MMA8451Q_FetchConfiguration ::
  "'confreg option \<Rightarrow> i2c_bus \<Rightarrow> error + ('confreg \<times> i2c_bus)" where
  "MMA8451Q_FetchConfiguration configuration bus =
     (case configuration of
        None \<Rightarrow> Inl AssertionFailed
      | Some c \<Rightarrow> Inr (c, bus))"

definition MMA8451Q_StoreConfiguration ::
  "'confreg option \<Rightarrow> i2c_bus \<Rightarrow> error + i2c_bus" where
  "MMA8451Q_StoreConfiguration configuration bus =
     (case configuration of
        None \<Rightarrow> Inl AssertionFailed
      | Some c \<Rightarrow> Inr bus)"

section \<open>An instance of the register map\<close>

text \<open>
  The addresses of the MMA8451Q register map, with the bus address of the part as it is
  wired on the FRDM-KL25Z board; used where a property is evaluated on a concrete device.
\<close>

definition frdm_kl25z :: mma8451q_h where
  "frdm_kl25z = \<lparr>MMA8451Q_I2CADDR = 0x1D, MMA8451Q_REG_STATUS = 0x00,
     MMA8451Q_REG_SYSMOD = 0x0B, MMA8451Q_REG_XZY_DATA_CFG = 0x0E,
     MMA8451Q_REG_PL_CFG = 0x11, MMA8451Q_REG_CTRL_REG1 = 0x2A,
     MMA8451Q_REG_CTRL_REG2 = 0x2B, MMA8451Q_REG_CTRL_REG3 = 0x2C,
     MMA8451Q_REG_CTRL_REG4 = 0x2D, MMA8451Q_REG_CTRL_REG5 = 0x2E\<rparr>"

text \<open>A bus on which every register of every slave holds \<open>v\<close> and nothing was issued yet.\<close>

definition bus_filled :: "uint8_t \<Rightarrow> i2c_bus" where
  "bus_filled v = \<lparr>device = (\<lambda>_ _. v), transactions = []\<rparr>"

text \<open>
  A bus whose registers \<open>0, 1, 2, \<dots>\<close> hold, for every slave, the bytes of the list, and
  zero beyond it.
\<close>

definition bus_of_registers :: "uint8_t list \<Rightarrow> i2c_bus" where
  "bus_of_registers rs =
     \<lparr>device = (\<lambda>_ r. if unat r < length rs then rs ! unat r else 0), transactions = []\<rparr>"

section \<open>Auxiliary facts\<close>

subsection \<open>Masks and narrowing\<close>

lemma ucast_NOT_down: "(ucast (NOT m :: c_int) :: uint8_t) = NOT (ucast m)"
  by (auto simp: bit_eq_iff bit_simps)

lemma within_mask1:
  fixes a m :: c_int
  shows "(ucast (a AND m) :: uint8_t) AND NOT (ucast m) = 0"
  by (auto simp: bit_eq_iff bit_simps)

lemma within_mask2:
  fixes a b m1 m2 :: c_int
  shows "(ucast ((a AND m1) OR (b AND m2)) :: uint8_t) AND NOT (ucast (m1 OR m2)) = 0"
  by (auto simp: bit_eq_iff bit_simps)

lemma within_mask2_swapped:
  fixes a b m1 m2 :: c_int
  shows "(ucast ((a AND m1) OR (b AND m2)) :: uint8_t) AND NOT (ucast (m2 OR m1)) = 0"
  by (auto simp: bit_eq_iff bit_simps)

lemma modify_frame:
  fixes r m v :: uint8_t
  assumes "v AND NOT m = 0"
  shows "((r AND NOT m) OR v) AND NOT m = r AND NOT m"
  using assms by (auto simp: bit_eq_iff bit_simps)

lemma and_or_idem:
  fixes c a v :: uint8_t
  shows "(((c AND a) OR v) AND a) OR v = (c AND a) OR v"
  by (rule bit_word_eqI) (auto simp: bit_and_iff bit_or_iff)

lemma and_or_and_or_idem:
  fixes c a v m w :: uint8_t
  shows "(((((((c AND a) OR v) AND m) OR w) AND a) OR v) AND m) OR w
           = (((c AND a) OR v) AND m) OR w"
  by (rule bit_word_eqI) (auto simp: bit_and_iff bit_or_iff)

lemma irq_mask: "(ucast (push_bit n (1 :: c_int)) :: uint8_t) = push_bit n 1"
  by (auto simp: bit_eq_iff bit_simps)

subsection \<open>Bus transactions\<close>

lemma device_modify:
  "device (I2C_ModifyRegister s r a v bus) s r = (device bus s r AND a) OR v"
  by (simp add: I2C_ModifyRegister_def)

lemma device_modify_other:
  "r' \<noteq> r \<Longrightarrow> device (I2C_ModifyRegister s r a v bus) s r' = device bus s r'"
  by (simp add: I2C_ModifyRegister_def)

lemma device_write:
  "device (I2C_WriteRegister s r v bus) s r = v"
  by (simp add: I2C_WriteRegister_def)

lemma modify_twice:
  "device (I2C_ModifyRegister s r a v (I2C_ModifyRegister s r a v bus))
     = device (I2C_ModifyRegister s r a v bus)"
  by (simp add: I2C_ModifyRegister_def and_or_idem)

lemma write_twice:
  "device (I2C_WriteRegister s r v (I2C_WriteRegister s r v bus))
     = device (I2C_WriteRegister s r v bus)"
  by (simp add: I2C_WriteRegister_def)

lemma configure_twice:
  "device (MMA8451Q_ConfigureInterrupt h irq pin (MMA8451Q_ConfigureInterrupt h irq pin bus))
     = device (MMA8451Q_ConfigureInterrupt h irq pin bus)"
  by (cases "MMA8451Q_REG_CTRL_REG4 h = MMA8451Q_REG_CTRL_REG5 h")
    (simp_all add: MMA8451Q_ConfigureInterrupt_def I2C_ModifyRegister_def
      and_or_idem and_or_and_or_idem fun_upd_twist)

lemma clear_twice:
  "device (MMA8451Q_ClearInterruptConfiguration h (MMA8451Q_ClearInterruptConfiguration h bus))
     = device (MMA8451Q_ClearInterruptConfiguration h bus)"
  by (cases "MMA8451Q_REG_CTRL_REG4 h = MMA8451Q_REG_CTRL_REG5 h")
    (simp_all add: MMA8451Q_ClearInterruptConfiguration_def I2C_WriteRegister_def fun_upd_twist)

subsection \<open>The burst of seven registers\<close>

lemma upt_7: "[0 ..< 7] = [0, 1, 2, 3, 4, 5, 6 :: nat]"
  by (simp add: upt_rec)

lemma burst_7:
  "fst (I2C_ReadRegisters a s registerCount bus) =
     [device bus a s, device bus a (s + 1), device bus a (s + 2), device bus a (s + 3),
      device bus a (s + 4), device bus a (s + 5), device bus a (s + 6)]"
  by (simp add: I2C_ReadRegisters_def registerCount_def upt_7)

lemma read_acceleration_fst:
  "fst (MMA8451Q_ReadAcceleration14bitNoFifo h host data bus) =
     layout_fix (endian_fix host (store_buffer host
       (fst (I2C_ReadRegisters (MMA8451Q_I2CADDR h) (MMA8451Q_REG_STATUS h) registerCount bus))
       data))"
  by (simp add: MMA8451Q_ReadAcceleration14bitNoFifo_def split: prod.split)

lemma swap_little_endian_load:
  fixes b0 b1 :: uint8_t
  shows "ENDIANSWAP_16 (push_bit 8 (ucast b1) OR ucast b0)
           = push_bit 8 (ucast b0) OR ucast b1"
  unfolding ENDIANSWAP_16_def
  by (rule bit_word_eqI) (auto simp: bit_simps dest: bit_imp_le_length)

lemma read_acceleration_fields:
  "fst (MMA8451Q_ReadAcceleration14bitNoFifo h host data bus) =
     \<lparr>status = device bus (MMA8451Q_I2CADDR h) (MMA8451Q_REG_STATUS h),
      x = signed_drop_bit 2
            (push_bit 8 (ucast (device bus (MMA8451Q_I2CADDR h) (MMA8451Q_REG_STATUS h + 1)))
             OR ucast (device bus (MMA8451Q_I2CADDR h) (MMA8451Q_REG_STATUS h + 2))),
      y = signed_drop_bit 2
            (push_bit 8 (ucast (device bus (MMA8451Q_I2CADDR h) (MMA8451Q_REG_STATUS h + 3)))
             OR ucast (device bus (MMA8451Q_I2CADDR h) (MMA8451Q_REG_STATUS h + 4))),
      z = signed_drop_bit 2
            (push_bit 8 (ucast (device bus (MMA8451Q_I2CADDR h) (MMA8451Q_REG_STATUS h + 5)))
             OR ucast (device bus (MMA8451Q_I2CADDR h) (MMA8451Q_REG_STATUS h + 6)))\<rparr>"
proof (cases host)
  case FROM_BIG_ENDIAN
  then show ?thesis
    by (cases data)
      (simp add: read_acceleration_fst burst_7 store_buffer_def endian_fix_def layout_fix_def
        endianCorrectionRequired_def load16_def)
next
  case FROM_LITTLE_ENDIAN
  then show ?thesis
    by (cases data)
      (simp add: read_acceleration_fst burst_7 store_buffer_def endian_fix_def layout_fix_def
        endianCorrectionRequired_def load16_def swap_little_endian_load)
qed

lemma signed_drop_bit_2_range:
  "- 8192 \<le> sint (signed_drop_bit 2 (w :: int16_t)) \<and> sint (signed_drop_bit 2 w) \<le> 8191"
proof -
  have "- 32768 \<le> sint w" "sint w \<le> 32767"
    using sint_ge [of w] sint_lt [of w] by simp_all
  moreover have "sint (signed_drop_bit 2 w) = sint w div 4"
    by (simp add: sint_signed_drop_bit_eq drop_bit_eq_div)
  ultimately show ?thesis by linarith
qed

section \<open>Bit-field updates\<close>

text \<open>
  C9. For the three read-modify-write updates (data rate and low-noise, oversampling,
  interrupt mode and polarity) and for all argument values, also outside the enumeration,
  the value handed to the modify as its OR operand has no bit outside the field the
  operation owns: ANDed with the complement of the owned mask it is zero. The last three
  conjuncts say that this value is the OR operand of the one transaction the operation
  issues.
\<close>

theorem value_within_owned_mask:
  "SetDataRate_value datarate lownoise
     AND NOT (ucast (CTRL_REG1_DR_MASK OR CTRL_REG1_LNOISE_MASK)) = 0
   \<and> SetOversampling_value oversampling AND NOT (ucast CTRL_REG2_MODS_MASK) = 0
   \<and> SetInterruptMode_value mode polarity
       AND NOT (ucast (CTRL_REG3_IPOL_MASK OR CTRL_REG3_PPOD_MASK)) = 0
   \<and> transactions (MMA8451Q_SetDataRate h datarate lownoise bus) = transactions bus @
       [ModifyRegister (MMA8451Q_I2CADDR h) (MMA8451Q_REG_CTRL_REG1 h)
          SetDataRate_mask (SetDataRate_value datarate lownoise)]
   \<and> transactions (MMA8451Q_SetOversampling h oversampling bus) = transactions bus @
       [ModifyRegister (MMA8451Q_I2CADDR h) (MMA8451Q_REG_CTRL_REG2 h)
          SetOversampling_mask (SetOversampling_value oversampling)]
   \<and> transactions (MMA8451Q_SetInterruptMode h mode polarity bus) = transactions bus @
       [ModifyRegister (MMA8451Q_I2CADDR h) (MMA8451Q_REG_CTRL_REG3 h)
          SetInterruptMode_mask (SetInterruptMode_value mode polarity)]"
proof (intro conjI)
  show "SetDataRate_value datarate lownoise
     AND NOT (ucast (CTRL_REG1_DR_MASK OR CTRL_REG1_LNOISE_MASK)) = 0"
    unfolding SetDataRate_value_def by (rule within_mask2)
  show "SetOversampling_value oversampling AND NOT (ucast CTRL_REG2_MODS_MASK) = 0"
    unfolding SetOversampling_value_def by (rule within_mask1)
  show "SetInterruptMode_value mode polarity
       AND NOT (ucast (CTRL_REG3_IPOL_MASK OR CTRL_REG3_PPOD_MASK)) = 0"
    unfolding SetInterruptMode_value_def by (rule within_mask2_swapped)
qed (simp_all add: MMA8451Q_SetDataRate_def MMA8451Q_SetOversampling_def
      MMA8451Q_SetInterruptMode_def I2C_ModifyRegister_def)

text \<open>
  C1, as amended. For the three read-modify-write operations (data rate and low-noise,
  oversampling, interrupt mode and polarity) and every prior content of the target
  register, the register agrees with its prior content on every bit outside the mask the
  operation owns. Setting the sensitivity and the high-pass enable is a plain write: the
  register becomes the computed value, which is zero outside \<open>0x13\<close>, whatever it held.
\<close>

theorem bit_field_frame:
  "device (MMA8451Q_SetDataRate h datarate lownoise bus)
       (MMA8451Q_I2CADDR h) (MMA8451Q_REG_CTRL_REG1 h)
     AND NOT (ucast (CTRL_REG1_DR_MASK OR CTRL_REG1_LNOISE_MASK))
   = device bus (MMA8451Q_I2CADDR h) (MMA8451Q_REG_CTRL_REG1 h)
     AND NOT (ucast (CTRL_REG1_DR_MASK OR CTRL_REG1_LNOISE_MASK))
  \<and> device (MMA8451Q_SetOversampling h oversampling bus)
       (MMA8451Q_I2CADDR h) (MMA8451Q_REG_CTRL_REG2 h)
     AND NOT (ucast CTRL_REG2_MODS_MASK)
   = device bus (MMA8451Q_I2CADDR h) (MMA8451Q_REG_CTRL_REG2 h)
     AND NOT (ucast CTRL_REG2_MODS_MASK)
  \<and> device (MMA8451Q_SetInterruptMode h mode polarity bus)
       (MMA8451Q_I2CADDR h) (MMA8451Q_REG_CTRL_REG3 h)
     AND NOT (ucast (CTRL_REG3_IPOL_MASK OR CTRL_REG3_PPOD_MASK))
   = device bus (MMA8451Q_I2CADDR h) (MMA8451Q_REG_CTRL_REG3 h)
     AND NOT (ucast (CTRL_REG3_IPOL_MASK OR CTRL_REG3_PPOD_MASK))
  \<and> device (MMA8451Q_SetSensitivity h sensitivity highpassEnabled bus)
       (MMA8451Q_I2CADDR h) (MMA8451Q_REG_XZY_DATA_CFG h)
     = SetSensitivity_value sensitivity highpassEnabled
  \<and> SetSensitivity_value sensitivity highpassEnabled AND NOT 0x13 = 0"
proof (intro conjI)
  show "device (MMA8451Q_SetDataRate h datarate lownoise bus)
       (MMA8451Q_I2CADDR h) (MMA8451Q_REG_CTRL_REG1 h)
     AND NOT (ucast (CTRL_REG1_DR_MASK OR CTRL_REG1_LNOISE_MASK))
   = device bus (MMA8451Q_I2CADDR h) (MMA8451Q_REG_CTRL_REG1 h)
     AND NOT (ucast (CTRL_REG1_DR_MASK OR CTRL_REG1_LNOISE_MASK))"
    unfolding MMA8451Q_SetDataRate_def device_modify SetDataRate_mask_def ucast_NOT_down
      SetDataRate_value_def
    by (rule modify_frame) (rule within_mask2)
  show "device (MMA8451Q_SetOversampling h oversampling bus)
       (MMA8451Q_I2CADDR h) (MMA8451Q_REG_CTRL_REG2 h)
     AND NOT (ucast CTRL_REG2_MODS_MASK)
   = device bus (MMA8451Q_I2CADDR h) (MMA8451Q_REG_CTRL_REG2 h)
     AND NOT (ucast CTRL_REG2_MODS_MASK)"
    unfolding MMA8451Q_SetOversampling_def device_modify SetOversampling_mask_def
      ucast_NOT_down SetOversampling_value_def
    by (rule modify_frame) (rule within_mask1)
  show "device (MMA8451Q_SetInterruptMode h mode polarity bus)
       (MMA8451Q_I2CADDR h) (MMA8451Q_REG_CTRL_REG3 h)
     AND NOT (ucast (CTRL_REG3_IPOL_MASK OR CTRL_REG3_PPOD_MASK))
   = device bus (MMA8451Q_I2CADDR h) (MMA8451Q_REG_CTRL_REG3 h)
     AND NOT (ucast (CTRL_REG3_IPOL_MASK OR CTRL_REG3_PPOD_MASK))"
    unfolding MMA8451Q_SetInterruptMode_def device_modify SetInterruptMode_mask_def
      ucast_NOT_down SetInterruptMode_value_def
    by (rule modify_frame) (rule within_mask2_swapped)
  show "device (MMA8451Q_SetSensitivity h sensitivity highpassEnabled bus)
       (MMA8451Q_I2CADDR h) (MMA8451Q_REG_XZY_DATA_CFG h)
     = SetSensitivity_value sensitivity highpassEnabled"
    by (simp add: MMA8451Q_SetSensitivity_def device_write)
  have "SetSensitivity_value sensitivity highpassEnabled
          AND NOT (ucast (0x03 OR 0x10 :: c_int)) = 0"
    unfolding SetSensitivity_value_def by (rule within_mask2)
  then show "SetSensitivity_value sensitivity highpassEnabled AND NOT 0x13 = 0"
    by simp
qed

text \<open>
  C1 as stated fails for the sensitivity operation: with the data configuration register
  holding \<open>0xFF\<close>, setting sensitivity 0 and high-pass 0 changes bits outside \<open>0x13\<close>.
\<close>

theorem set_sensitivity_frame_counterexample:
  "device (MMA8451Q_SetSensitivity frdm_kl25z 0 0 (bus_filled 0xFF))
       (MMA8451Q_I2CADDR frdm_kl25z) (MMA8451Q_REG_XZY_DATA_CFG frdm_kl25z) AND NOT 0x13
   \<noteq> device (bus_filled 0xFF)
       (MMA8451Q_I2CADDR frdm_kl25z) (MMA8451Q_REG_XZY_DATA_CFG frdm_kl25z) AND NOT 0x13"
  by (simp add: MMA8451Q_SetSensitivity_def I2C_WriteRegister_def SetSensitivity_value_def
      bus_filled_def)

text \<open>
  C7. Every bit-field operation is idempotent on the device: issued a second time with
  the same arguments, it leaves every register as the first call left it.
\<close>

theorem bit_field_operations_idempotent:
  "device (MMA8451Q_SetDataRate h datarate lownoise
        (MMA8451Q_SetDataRate h datarate lownoise bus))
     = device (MMA8451Q_SetDataRate h datarate lownoise bus)
   \<and> device (MMA8451Q_SetOversampling h oversampling
        (MMA8451Q_SetOversampling h oversampling bus))
     = device (MMA8451Q_SetOversampling h oversampling bus)
   \<and> device (MMA8451Q_SetSensitivity h sensitivity highpassEnabled
        (MMA8451Q_SetSensitivity h sensitivity highpassEnabled bus))
     = device (MMA8451Q_SetSensitivity h sensitivity highpassEnabled bus)
   \<and> device (MMA8451Q_SetInterruptMode h mode polarity
        (MMA8451Q_SetInterruptMode h mode polarity bus))
     = device (MMA8451Q_SetInterruptMode h mode polarity bus)
   \<and> device (MMA8451Q_ConfigureInterrupt h irq pin
        (MMA8451Q_ConfigureInterrupt h irq pin bus))
     = device (MMA8451Q_ConfigureInterrupt h irq pin bus)
   \<and> device (MMA8451Q_ClearInterruptConfiguration h
        (MMA8451Q_ClearInterruptConfiguration h bus))
     = device (MMA8451Q_ClearInterruptConfiguration h bus)"
  by (simp only: MMA8451Q_SetDataRate_def MMA8451Q_SetOversampling_def
      MMA8451Q_SetSensitivity_def MMA8451Q_SetInterruptMode_def
      modify_twice write_twice configure_twice clear_twice simp_thms)

section \<open>Interrupt configuration\<close>

text \<open>
  C2, as amended. For an interrupt source whose number is a bit of the register
  (\<open>irq < 8\<close>) and a register map in which the enable and the routing register differ:
  configuring the source with pin 1 leaves its bit of the routing register
  (\<open>CTRL_REG5\<close>) set, configuring it with pin 2 leaves that bit clear, and with either
  pin every other bit of the routing register is unchanged.
\<close>

theorem configure_interrupt_routing:
  assumes "unat irq < 8"
    and "MMA8451Q_REG_CTRL_REG4 h \<noteq> MMA8451Q_REG_CTRL_REG5 h"
  shows "bit (device (MMA8451Q_ConfigureInterrupt h irq MMA8451Q_INTPIN_INT1 bus)
            (MMA8451Q_I2CADDR h) (MMA8451Q_REG_CTRL_REG5 h)) (unat irq)
    \<and> \<not> bit (device (MMA8451Q_ConfigureInterrupt h irq MMA8451Q_INTPIN_INT2 bus)
            (MMA8451Q_I2CADDR h) (MMA8451Q_REG_CTRL_REG5 h)) (unat irq)
    \<and> device (MMA8451Q_ConfigureInterrupt h irq pin bus)
            (MMA8451Q_I2CADDR h) (MMA8451Q_REG_CTRL_REG5 h) AND NOT (push_bit (unat irq) 1)
        = device bus (MMA8451Q_I2CADDR h) (MMA8451Q_REG_CTRL_REG5 h)
            AND NOT (push_bit (unat irq) 1)"
proof -
  have r5: "device (MMA8451Q_ConfigureInterrupt h irq p bus)
              (MMA8451Q_I2CADDR h) (MMA8451Q_REG_CTRL_REG5 h)
            = (device bus (MMA8451Q_I2CADDR h) (MMA8451Q_REG_CTRL_REG5 h)
                 AND ConfigureInterrupt_clearMask irq p) OR ConfigureInterrupt_setMask irq p"
    for p
    using assms(2)
    by (simp add: MMA8451Q_ConfigureInterrupt_def device_modify device_modify_other)
  have s1: "bit (((r :: uint8_t) AND 0xFF) OR push_bit (unat irq) 1) (unat irq)" for r
    using assms(1) by (simp add: bit_simps)
  have s2: "\<not> bit (((r :: uint8_t) AND NOT (push_bit (unat irq) 1)) OR 0) (unat irq)" for r
    using assms(1) by (simp add: bit_simps)
  have s3: "(((r :: uint8_t) AND 0xFF) OR m) AND NOT m = r AND NOT m" for r m
  proof -
    have "(0xFF :: uint8_t) = - 1" by simp
    then have "(r AND 0xFF) = r" by (simp only: and.right_neutral)
    then show ?thesis
      by (simp only:) (rule bit_word_eqI, auto simp: bit_and_iff bit_or_iff bit_not_iff)
  qed
  have s4: "(((r :: uint8_t) AND NOT m) OR 0) AND NOT m = r AND NOT m" for r m
    by (rule bit_word_eqI) (auto simp: bit_and_iff bit_or_iff bit_not_iff)
  have c1: "ConfigureInterrupt_clearMask irq MMA8451Q_INTPIN_INT1 = 0xFF"
    by (simp add: ConfigureInterrupt_clearMask_def I2C_MOD_NO_AND_MASK_def)
  have v1: "ConfigureInterrupt_setMask irq MMA8451Q_INTPIN_INT1 = push_bit (unat irq) 1"
    by (simp only: ConfigureInterrupt_setMask_def irq_mask mma8451q_intpin_t.distinct if_False)
  have c2: "ConfigureInterrupt_clearMask irq MMA8451Q_INTPIN_INT2 = NOT (push_bit (unat irq) 1)"
    by (simp only: ConfigureInterrupt_clearMask_def irq_mask ucast_NOT_down simp_thms if_True)
  have v2: "ConfigureInterrupt_setMask irq MMA8451Q_INTPIN_INT2 = 0"
    by (simp add: ConfigureInterrupt_setMask_def I2C_MOD_NO_OR_MASK_def)
  have pin1: "bit (device (MMA8451Q_ConfigureInterrupt h irq MMA8451Q_INTPIN_INT1 bus)
            (MMA8451Q_I2CADDR h) (MMA8451Q_REG_CTRL_REG5 h)) (unat irq)"
    by (simp only: r5 c1 v1 s1)
  have pin2: "\<not> bit (device (MMA8451Q_ConfigureInterrupt h irq MMA8451Q_INTPIN_INT2 bus)
            (MMA8451Q_I2CADDR h) (MMA8451Q_REG_CTRL_REG5 h)) (unat irq)"
    by (simp only: r5 c2 v2 s2 not_False_eq_True)
  have others: "device (MMA8451Q_ConfigureInterrupt h irq pin bus)
            (MMA8451Q_I2CADDR h) (MMA8451Q_REG_CTRL_REG5 h) AND NOT (push_bit (unat irq) 1)
        = device bus (MMA8451Q_I2CADDR h) (MMA8451Q_REG_CTRL_REG5 h)
            AND NOT (push_bit (unat irq) 1)"
  proof (cases pin)
    case MMA8451Q_INTPIN_INT1
    then show ?thesis by (simp only: r5 c1 v1 s3)
  next
    case MMA8451Q_INTPIN_INT2
    then show ?thesis by (simp only: r5 c2 v2 s4)
  qed
  from pin1 pin2 others show ?thesis by (intro conjI)
qed

theorem configure_interrupt_routing_witness:
  "unat (3 :: c_int) < 8
   \<and> MMA8451Q_REG_CTRL_REG4 frdm_kl25z \<noteq> MMA8451Q_REG_CTRL_REG5 frdm_kl25z
   \<and> bit (device (MMA8451Q_ConfigureInterrupt frdm_kl25z 3 MMA8451Q_INTPIN_INT1
              (bus_filled 0xA5))
            (MMA8451Q_I2CADDR frdm_kl25z) (MMA8451Q_REG_CTRL_REG5 frdm_kl25z))
        (unat (3 :: c_int))
   \<and> \<not> bit (device (MMA8451Q_ConfigureInterrupt frdm_kl25z 3 MMA8451Q_INTPIN_INT2
              (bus_filled 0xA5))
            (MMA8451Q_I2CADDR frdm_kl25z) (MMA8451Q_REG_CTRL_REG5 frdm_kl25z))
        (unat (3 :: c_int))"
proof -
  have a: "unat (3 :: c_int) < 8" by simp
  have b: "MMA8451Q_REG_CTRL_REG4 frdm_kl25z \<noteq> MMA8451Q_REG_CTRL_REG5 frdm_kl25z"
    by (simp add: frdm_kl25z_def)
  show ?thesis
    using a b configure_interrupt_routing [OF a b, of "bus_filled 0xA5"] by blast
qed

text \<open>
  C2 as stated fails: routing source 0 to pin 1 on a cleared routing register leaves bit
  0 set, and routing it to pin 2 on a routing register of all ones leaves bit 0 clear.
\<close>

theorem configure_interrupt_pin_counterexample:
  "bit (device (MMA8451Q_ConfigureInterrupt frdm_kl25z 0 MMA8451Q_INTPIN_INT1
            (bus_filled 0x00))
          (MMA8451Q_I2CADDR frdm_kl25z) (MMA8451Q_REG_CTRL_REG5 frdm_kl25z)) 0
   \<and> \<not> bit (device (MMA8451Q_ConfigureInterrupt frdm_kl25z 0 MMA8451Q_INTPIN_INT2
            (bus_filled 0xFF))
          (MMA8451Q_I2CADDR frdm_kl25z) (MMA8451Q_REG_CTRL_REG5 frdm_kl25z)) 0"
  by (simp add: MMA8451Q_ConfigureInterrupt_def I2C_ModifyRegister_def frdm_kl25z_def
      bus_filled_def ConfigureInterrupt_clearMask_def ConfigureInterrupt_setMask_def
      I2C_MOD_NO_AND_MASK_def I2C_MOD_NO_OR_MASK_def)

text \<open>
  C5. Whatever the two interrupt registers held, clearing the interrupt configuration
  leaves \<open>CTRL_REG4\<close> and \<open>CTRL_REG5\<close> at zero, and it does so by two plain writes of the
  literal zero, in this order, not by a modify.
\<close>

theorem clear_interrupt_configuration_zero:
  "device (MMA8451Q_ClearInterruptConfiguration h bus)
       (MMA8451Q_I2CADDR h) (MMA8451Q_REG_CTRL_REG4 h) = 0
   \<and> device (MMA8451Q_ClearInterruptConfiguration h bus)
       (MMA8451Q_I2CADDR h) (MMA8451Q_REG_CTRL_REG5 h) = 0
   \<and> transactions (MMA8451Q_ClearInterruptConfiguration h bus) = transactions bus @
       [WriteRegister (MMA8451Q_I2CADDR h) (MMA8451Q_REG_CTRL_REG4 h) 0,
        WriteRegister (MMA8451Q_I2CADDR h) (MMA8451Q_REG_CTRL_REG5 h) 0]"
  by (simp add: MMA8451Q_ClearInterruptConfiguration_def I2C_WriteRegister_def)

section \<open>Configuration aggregates\<close>

text \<open>
  C8. A null aggregate pointer makes \<open>MMA8451Q_FetchConfiguration\<close> and
  \<open>MMA8451Q_StoreConfiguration\<close> fail their assertion; with a non-null pointer both
  return normally, so the assertion branch is not taken.
\<close>

theorem null_configuration_asserts:
  "MMA8451Q_FetchConfiguration (None :: 'c option) bus = Inl AssertionFailed
   \<and> MMA8451Q_StoreConfiguration (None :: 'c option) bus = Inl AssertionFailed
   \<and> MMA8451Q_FetchConfiguration (Some (c :: 'c)) bus = Inr (c, bus)
   \<and> MMA8451Q_StoreConfiguration (Some c) bus = Inr bus"
  by (simp add: MMA8451Q_FetchConfiguration_def MMA8451Q_StoreConfiguration_def)

text \<open>
  C3 does not hold of the code. On a device whose registers all hold \<open>0xFF\<close>, fetching
  into an aggregate of three zero bytes returns the aggregate as it was, and the bus with
  no transaction issued: no field was read from the device.
\<close>

theorem fetch_configuration_reads_nothing:
  "MMA8451Q_FetchConfiguration (Some [0 :: uint8_t, 0, 0]) (bus_filled 0xFF)
     = Inr ([0, 0, 0], bus_filled 0xFF)
   \<and> transactions (bus_filled 0xFF) = []"
  by (simp add: MMA8451Q_FetchConfiguration_def bus_filled_def)

section \<open>Reading the acceleration\<close>

text \<open>
  C6. Reading the acceleration issues exactly one bus transaction, a burst read of seven
  registers starting at the status register, and changes no register. The status of the
  result is the byte that burst read at the status register, and each axis is decoded
  from the two bytes it read at the next six addresses, most significant byte first,
  shifted right by two bits arithmetically. Nothing of what the caller's sample held
  before the call remains in the result.
\<close>

theorem read_acceleration_one_burst:
  "transactions (snd (MMA8451Q_ReadAcceleration14bitNoFifo h host data bus))
     = transactions bus @ [ReadRegisters (MMA8451Q_I2CADDR h) (MMA8451Q_REG_STATUS h) 7]
   \<and> device (snd (MMA8451Q_ReadAcceleration14bitNoFifo h host data bus)) = device bus
   \<and> status (fst (MMA8451Q_ReadAcceleration14bitNoFifo h host data bus))
     = device bus (MMA8451Q_I2CADDR h) (MMA8451Q_REG_STATUS h)
   \<and> x (fst (MMA8451Q_ReadAcceleration14bitNoFifo h host data bus))
     = signed_drop_bit 2
         (push_bit 8 (ucast (device bus (MMA8451Q_I2CADDR h) (MMA8451Q_REG_STATUS h + 1)))
          OR ucast (device bus (MMA8451Q_I2CADDR h) (MMA8451Q_REG_STATUS h + 2)))
   \<and> y (fst (MMA8451Q_ReadAcceleration14bitNoFifo h host data bus))
     = signed_drop_bit 2
         (push_bit 8 (ucast (device bus (MMA8451Q_I2CADDR h) (MMA8451Q_REG_STATUS h + 3)))
          OR ucast (device bus (MMA8451Q_I2CADDR h) (MMA8451Q_REG_STATUS h + 4)))
   \<and> z (fst (MMA8451Q_ReadAcceleration14bitNoFifo h host data bus))
     = signed_drop_bit 2
         (push_bit 8 (ucast (device bus (MMA8451Q_I2CADDR h) (MMA8451Q_REG_STATUS h + 5)))
          OR ucast (device bus (MMA8451Q_I2CADDR h) (MMA8451Q_REG_STATUS h + 6)))
   \<and> fst (MMA8451Q_ReadAcceleration14bitNoFifo h host data bus)
     = fst (MMA8451Q_ReadAcceleration14bitNoFifo h host data' bus)"
proof (intro conjI)
  show "transactions (snd (MMA8451Q_ReadAcceleration14bitNoFifo h host data bus))
     = transactions bus @ [ReadRegisters (MMA8451Q_I2CADDR h) (MMA8451Q_REG_STATUS h) 7]"
    by (simp add: MMA8451Q_ReadAcceleration14bitNoFifo_def I2C_ReadRegisters_def
        registerCount_def)
  show "device (snd (MMA8451Q_ReadAcceleration14bitNoFifo h host data bus)) = device bus"
    by (simp add: MMA8451Q_ReadAcceleration14bitNoFifo_def I2C_ReadRegisters_def)
  show "fst (MMA8451Q_ReadAcceleration14bitNoFifo h host data bus)
     = fst (MMA8451Q_ReadAcceleration14bitNoFifo h host data' bus)"
    by (simp only: read_acceleration_fields)
qed (simp_all only: read_acceleration_fields mma8451q_acc_t.simps)

text \<open>
  C4. Each axis of the result is the 16-bit word the host finds in memory after the
  burst, byte-swapped exactly when the host's order is not big-endian, and then shifted
  right by two bits arithmetically. For the wire bytes \<open>12 34\<close>, \<open>FF F0\<close>, \<open>00 04\<close> on a
  little-endian host the result is \<open>x = 0x048D\<close>, \<open>y = 0xFFFC\<close> (that is \<open>-4\<close>) and
  \<open>z = 0x0001\<close>; a big-endian host, which does not swap, obtains the same.
\<close>

theorem read_acceleration_decode:
  "fst (MMA8451Q_ReadAcceleration14bitNoFifo h host data bus) =
     data\<lparr>status := device bus (MMA8451Q_I2CADDR h) (MMA8451Q_REG_STATUS h),
       x := signed_drop_bit 2
          (if host \<noteq> FROM_BIG_ENDIAN
           then ENDIANSWAP_16 (load16 host
             (device bus (MMA8451Q_I2CADDR h) (MMA8451Q_REG_STATUS h + 1))
             (device bus (MMA8451Q_I2CADDR h) (MMA8451Q_REG_STATUS h + 2)))
           else load16 host
             (device bus (MMA8451Q_I2CADDR h) (MMA8451Q_REG_STATUS h + 1))
             (device bus (MMA8451Q_I2CADDR h) (MMA8451Q_REG_STATUS h + 2))),
       y := signed_drop_bit 2
          (if host \<noteq> FROM_BIG_ENDIAN
           then ENDIANSWAP_16 (load16 host
             (device bus (MMA8451Q_I2CADDR h) (MMA8451Q_REG_STATUS h + 3))
             (device bus (MMA8451Q_I2CADDR h) (MMA8451Q_REG_STATUS h + 4)))
           else load16 host
             (device bus (MMA8451Q_I2CADDR h) (MMA8451Q_REG_STATUS h + 3))
             (device bus (MMA8451Q_I2CADDR h) (MMA8451Q_REG_STATUS h + 4))),
       z := signed_drop_bit 2
          (if host \<noteq> FROM_BIG_ENDIAN
           then ENDIANSWAP_16 (load16 host
             (device bus (MMA8451Q_I2CADDR h) (MMA8451Q_REG_STATUS h + 5))
             (device bus (MMA8451Q_I2CADDR h) (MMA8451Q_REG_STATUS h + 6)))
           else load16 host
             (device bus (MMA8451Q_I2CADDR h) (MMA8451Q_REG_STATUS h + 5))
             (device bus (MMA8451Q_I2CADDR h) (MMA8451Q_REG_STATUS h + 6)))\<rparr>
   \<and> fst (MMA8451Q_ReadAcceleration14bitNoFifo frdm_kl25z FROM_LITTLE_ENDIAN data
          (bus_of_registers [0x0F, 0x12, 0x34, 0xFF, 0xF0, 0x00, 0x04]))
       = data\<lparr>status := 0x0F, x := 0x048D, y := 0xFFFC, z := 0x0001\<rparr>
   \<and> sint (0xFFFC :: int16_t) = - 4
   \<and> fst (MMA8451Q_ReadAcceleration14bitNoFifo frdm_kl25z FROM_BIG_ENDIAN data
          (bus_of_registers [0x0F, 0x12, 0x34, 0xFF, 0xF0, 0x00, 0x04]))
       = data\<lparr>status := 0x0F, x := 0x048D, y := 0xFFFC, z := 0x0001\<rparr>"
proof (intro conjI)
  show "fst (MMA8451Q_ReadAcceleration14bitNoFifo frdm_kl25z FROM_LITTLE_ENDIAN data
          (bus_of_registers [0x0F, 0x12, 0x34, 0xFF, 0xF0, 0x00, 0x04]))
       = data\<lparr>status := 0x0F, x := 0x048D, y := 0xFFFC, z := 0x0001\<rparr>"
    by (simp add: read_acceleration_fst burst_7 store_buffer_def endian_fix_def layout_fix_def
        endianCorrectionRequired_def load16_def ENDIANSWAP_16_def bus_of_registers_def
        frdm_kl25z_def)
  show "fst (MMA8451Q_ReadAcceleration14bitNoFifo frdm_kl25z FROM_BIG_ENDIAN data
          (bus_of_registers [0x0F, 0x12, 0x34, 0xFF, 0xF0, 0x00, 0x04]))
       = data\<lparr>status := 0x0F, x := 0x048D, y := 0xFFFC, z := 0x0001\<rparr>"
    by (simp add: read_acceleration_fst burst_7 store_buffer_def endian_fix_def layout_fix_def
        endianCorrectionRequired_def load16_def ENDIANSWAP_16_def bus_of_registers_def
        frdm_kl25z_def)
  show "sint (0xFFFC :: int16_t) = - 4"
    by simp
qed (simp add: read_acceleration_fst burst_7 store_buffer_def endian_fix_def layout_fix_def
      endianCorrectionRequired_def)

text \<open>
  C10. Whatever bytes the burst delivers, each axis of the decoded sample, read as a
  signed 16-bit value, lies between \<open>-8192\<close> and \<open>8191\<close>.
\<close>

theorem read_acceleration_range:
  "- 8192 \<le> sint (x (fst (MMA8451Q_ReadAcceleration14bitNoFifo h host data bus)))
   \<and> sint (x (fst (MMA8451Q_ReadAcceleration14bitNoFifo h host data bus))) \<le> 8191
   \<and> - 8192 \<le> sint (y (fst (MMA8451Q_ReadAcceleration14bitNoFifo h host data bus)))
   \<and> sint (y (fst (MMA8451Q_ReadAcceleration14bitNoFifo h host data bus))) \<le> 8191
   \<and> - 8192 \<le> sint (z (fst (MMA8451Q_ReadAcceleration14bitNoFifo h host data bus)))
   \<and> sint (z (fst (MMA8451Q_ReadAcceleration14bitNoFifo h host data bus))) \<le> 8191"
  by (simp add: read_acceleration_fst layout_fix_def signed_drop_bit_2_range)

end
